theory Spec2Isabelle
  imports Main "HOL-Library.Finite_Map" "HOL-Library.Sublist"
begin

section \<open>The identity converter of resourcemanager/identity\<close>

text \<open>
  A shallow embedding of \<^verbatim>\<open>system_or_single_user_assigned_map.go\<close>: the struct
  \<^verbatim>\<open>SystemOrSingleUserAssignedMap\<close>, its \<^verbatim>\<open>MarshalJSON\<close> method, and the two
  Expand and the two Flatten functions. Go maps are finite maps, a nil pointer is
  \<open>None\<close>, a returned error and a runtime panic are the two constructors of
  \<open>error\<close>, and the in-place assignment of the Flatten functions is returned as the
  value the pointer holds after the call.
\<close>

subsection \<open>Types\<close>

text \<open>Go: \<^verbatim>\<open>type Type string\<close>. Any string is a value of the type.\<close>

type_synonym Type = string

text \<open>
  Modelled from the spec: the constants \<^verbatim>\<open>TypeNone\<close>, \<^verbatim>\<open>TypeSystemAssigned\<close> and
  \<^verbatim>\<open>TypeUserAssigned\<close> are declared in another file of the package. The spec's wire
  format gives their string literals.
\<close>

definition TypeNone :: Type where
  "TypeNone = ''None''"

definition TypeSystemAssigned :: Type where
  "TypeSystemAssigned = ''SystemAssigned''"

definition TypeUserAssigned :: Type where
  "TypeUserAssigned = ''UserAssigned''"

text \<open>
  The struct. The element type \<^verbatim>\<open>UserAssignedIdentityDetails\<close> of the map is declared
  elsewhere, so it is the type parameter \<open>'d\<close>. A nil map and an empty map are both
  \<open>fmempty\<close>: the file only takes the length of the map, ranges over it and stores
  into maps it has made itself, and a nil map behaves as an empty one under the first
  two.
\<close>

record 'd SystemOrSingleUserAssignedMap =
  Type :: Type
  PrincipalId :: string
  TenantId :: string
  IdentityIds :: "(string, 'd) fmap"

text \<open>
  The typed schema model \<^verbatim>\<open>ModelSystemAssignedUserAssigned\<close>, with the four fields the
  file reads and writes. The field names carry a prefix because a theory cannot hold two
  records with the same field names.
\<close>

record ModelSystemAssignedUserAssigned =
  Model_Type :: Type
  Model_PrincipalId :: string
  Model_TenantId :: string
  Model_IdentityIds :: "string list"

text \<open>
  Values of \<^verbatim>\<open>interface{}\<close>, as far as the file looks at them: nil, a string, an
  integer (standing for every other dynamic type), a \<^verbatim>\<open>[]string\<close>, a
  \<^verbatim>\<open>*schema.Set\<close> given by the list its \<^verbatim>\<open>List()\<close> method returns, and a
  \<^verbatim>\<open>map[string]interface{}\<close> as an association list read with \<open>map_of\<close>.
\<close>

datatype iface =
    INil
  | IString string
  | IInt int
  | IStrings "string list"
  | ISet "iface list"
  | IMap "(string \<times> iface) list"

text \<open>
  What a call ends with when it does not return a value: a failed type assertion panics,
  a failed validation returns an error made by \<^verbatim>\<open>fmt.Errorf\<close>, of which the message is
  kept.
\<close>

datatype error = Panic | Error string

text \<open>JSON values, as far as \<^verbatim>\<open>MarshalJSON\<close> produces them.\<close>

datatype json = JNull | JString string | JObject "(string, json) fmap"

subsection \<open>The verb \<^verbatim>\<open>%q\<close> of the fmt package\<close>

text \<open>
  \<^verbatim>\<open>%q\<close> prints a string as a double-quoted Go string literal
  (\<^verbatim>\<open>strconv.Quote\<close>): a double quote and a backslash get a backslash in front, a
  printable ASCII character stands for itself, the seven control characters with a
  short escape use it, and every other byte below 128 is written as \<^verbatim>\<open>\x\<close> and two
  lower-case hexadecimal digits. Bytes from 128 on are decoded as UTF-8 and escaped
  according to Unicode tables; that part is a parameter of the model.
\<close>

definition lowerhex :: "nat \<Rightarrow> char" where
  "lowerhex n = ''0123456789abcdef'' ! (n mod 16)"

definition appendEscapedRune :: "char \<Rightarrow> string" where
  "appendEscapedRune r =
     (let n = (of_char r :: nat) in
      if r = CHR 0x22 \<or> r = CHR 0x5C then [CHR 0x5C, r]
      else if 32 \<le> n \<and> n < 127 then [r]
      else if n = 7 then [CHR 0x5C, CHR ''a'']
      else if n = 8 then [CHR 0x5C, CHR ''b'']
      else if n = 12 then [CHR 0x5C, CHR ''f'']
      else if n = 10 then [CHR 0x5C, CHR ''n'']
      else if n = 13 then [CHR 0x5C, CHR ''r'']
      else if n = 9 then [CHR 0x5C, CHR ''t'']
      else if n = 11 then [CHR 0x5C, CHR ''v'']
      else [CHR 0x5C, CHR ''x'', lowerhex (n div 16), lowerhex n])"

definition quote_ascii :: "string \<Rightarrow> string" where
  "quote_ascii s = [CHR 0x22] @ concat (map appendEscapedRune s) @ [CHR 0x22]"

definition is_ascii :: "string \<Rightarrow> bool" where
  "is_ascii s = list_all (\<lambda>c. (of_char c :: nat) < 128) s"

definition go_quote :: "(string \<Rightarrow> string) \<Rightarrow> string \<Rightarrow> string" where
  "go_quote quote_non_ascii s = (if is_ascii s then quote_ascii s else quote_non_ascii s)"

subsection \<open>Collaborators outside the file\<close>

text \<open>
  The Flatten functions call \<^verbatim>\<open>normalizeType\<close> (another file of the package),
  \<^verbatim>\<open>commonids.ParseUserAssignedIdentityIDInsensitively\<close> and the \<^verbatim>\<open>ID()\<close> method of the
  parsed identifier, and they format the parse error with \<^verbatim>\<open>%+v\<close>. None of them is in
  the file, so they are parameters: \<open>'i\<close> is the type of parsed identifiers, \<open>'e\<close> the
  type of parse errors, and \<open>Inl\<close> is a failed parse.
\<close>

record ('i, 'e) collaborators =
  normalizeType :: "Type \<Rightarrow> Type"
  ParseUserAssignedIdentityIDInsensitively :: "string \<Rightarrow> 'e + 'i"
  ID :: "'i \<Rightarrow> string"
  format_plus_v :: "'e \<Rightarrow> string"
  quote_non_ascii :: "string \<Rightarrow> string"

subsection \<open>The length of a map\<close>

text \<open>Go's \<^verbatim>\<open>len\<close> on a map: the number of keys.\<close>

definition len :: "(string, 'd) fmap \<Rightarrow> nat" where
  "len m = fcard (fmdom m)"

subsection \<open>MarshalJSON\<close>

text \<open>
  \<^verbatim>\<open>json.Marshal\<close> of the map \<^verbatim>\<open>out\<close> is the JSON object with the keys of the map; a
  nil value is \<^verbatim>\<open>null\<close>, and the map of details is an object whose members are the
  encodings of the details, given by the parameter \<open>marshalDetails\<close>. The result is
  the JSON value, not its bytes, and the error result is left out: marshalling a map
  from strings to strings, nil and maps of structs does not fail.
\<close>

definition MarshalJSON :: "('d \<Rightarrow> json) \<Rightarrow> 'd SystemOrSingleUserAssignedMap option \<Rightarrow> json" where
  "MarshalJSON marshalDetails s =
     (let (identityType, userAssignedIdentityIds) =
        (case s of
           None \<Rightarrow> (TypeNone, fmempty)
         | Some v \<Rightarrow>
             (let identityType = (if Type v = TypeSystemAssigned then TypeSystemAssigned else TypeNone);
                  identityType = (if Type v = TypeUserAssigned then TypeUserAssigned else identityType)
              in (identityType, if identityType \<noteq> TypeNone then IdentityIds v else fmempty)))
      in JObject (fmap_of_list
           [(''type'', JString identityType),
            (''userAssignedIdentities'',
               if len userAssignedIdentityIds > 0
               then JObject (fmmap marshalDetails userAssignedIdentityIds)
               else JNull)]))"

text \<open>
  Modelled from the spec: the declaration of \<^verbatim>\<open>UserAssignedIdentityDetails\<close> and its
  JSON encoding are in another file of the package. The spec has each identity ID mapped
  to an empty object placeholder that carries no fields, whatever the details are.
\<close>

definition marshalUserAssignedIdentityDetails :: "'d \<Rightarrow> json" where
  "marshalUserAssignedIdentityDetails d = JObject fmempty"

subsection \<open>The error messages\<close>

text \<open>Each is \<^verbatim>\<open>fmt.Errorf\<close> of a format ending in \<^verbatim>\<open>%q\<close>, applied to \<^verbatim>\<open>string(TypeUserAssigned)\<close>.\<close>

definition errMustBeSpecified :: string where
  "errMustBeSpecified =
     ''`identity_ids` must be specified when `type` is set to '' @ quote_ascii TypeUserAssigned"

definition errSingleIdentity :: string where
  "errSingleIdentity =
     ''`identity_ids` can only contain a single identity ID when `type` is set to ''
       @ quote_ascii TypeUserAssigned"

definition errOnlyUserAssigned :: string where
  "errOnlyUserAssigned =
     ''`identity_ids` can only be specified when `type` is set to '' @ quote_ascii TypeUserAssigned"

subsection \<open>ExpandSystemOrSingleUserAssignedMap\<close>

text \<open>
  The loop over \<^verbatim>\<open>identityIdsRaw\<close>: each element must be a string, and is stored as a
  key with the empty details \<open>z\<close> (the literal \<^verbatim>\<open>UserAssignedIdentityDetails{}\<close>).
\<close>

fun insertIdentityIds :: "'d \<Rightarrow> iface list \<Rightarrow> (string, 'd) fmap \<Rightarrow> error + (string, 'd) fmap" where
  "insertIdentityIds z [] identityIds = Inr identityIds"
| "insertIdentityIds z (IString v # vs) identityIds = insertIdentityIds z vs (fmupd v z identityIds)"
| "insertIdentityIds z (_ # vs) identityIds = Inl Panic"

text \<open>Lines 53 to 72: reading the first element of the input.\<close>

definition expandRead :: "'d \<Rightarrow> iface list \<Rightarrow> error + (Type \<times> (string, 'd) fmap)" where
  "expandRead z input =
     (case input of
        [] \<Rightarrow> Inr (TypeNone, fmempty)
      | first # _ \<Rightarrow>
          (case first of
             IMap raw \<Rightarrow>
               (case map_of raw ''type'' of
                  Some (IString typeRaw) \<Rightarrow>
                    (let identityType = (if typeRaw = TypeSystemAssigned then TypeSystemAssigned else TypeNone);
                         identityType = (if typeRaw = TypeUserAssigned then TypeUserAssigned else identityType)
                     in case map_of raw ''identity_ids'' of
                          Some (ISet identityIdsRaw) \<Rightarrow>
                            (case insertIdentityIds z identityIdsRaw fmempty of
                               Inl e \<Rightarrow> Inl e
                             | Inr identityIds \<Rightarrow> Inr (identityType, identityIds))
                        | _ \<Rightarrow> Inl Panic)
                | _ \<Rightarrow> Inl Panic)
           | _ \<Rightarrow> Inl Panic))"

text \<open>The whole function: lines 74 to 93 validate what was read.\<close>

definition ExpandSystemOrSingleUserAssignedMap ::
    "'d \<Rightarrow> iface list \<Rightarrow> error + 'd SystemOrSingleUserAssignedMap" where
  "ExpandSystemOrSingleUserAssignedMap z input =
     (case expandRead z input of
        Inl e \<Rightarrow> Inl e
      | Inr (identityType, identityIds) \<Rightarrow>
          if identityType = TypeUserAssigned \<and> len identityIds = 0
            then Inl (Error errMustBeSpecified)
          else if identityType = TypeUserAssigned \<and> len identityIds > 1
            then Inl (Error errSingleIdentity)
          else if len identityIds > 0 \<and> identityType = TypeSystemAssigned
            then Inl (Error errOnlyUserAssigned)
          else Inr \<lparr>Type = identityType, PrincipalId = [], TenantId = [],
                    IdentityIds = identityIds\<rparr>)"

subsection \<open>ExpandSystemOrSingleUserAssignedMapFromModel\<close>

definition ExpandSystemOrSingleUserAssignedMapFromModel ::
    "'d \<Rightarrow> ModelSystemAssignedUserAssigned list \<Rightarrow> error + 'd SystemOrSingleUserAssignedMap" where
  "ExpandSystemOrSingleUserAssignedMapFromModel z input =
     (case input of
        [] \<Rightarrow> Inr \<lparr>Type = TypeNone, PrincipalId = [], TenantId = [], IdentityIds = fmempty\<rparr>
      | identity # _ \<Rightarrow>
          (let identityIds = fold (\<lambda>v m. fmupd v z m) (Model_IdentityIds identity) fmempty
           in if Model_Type identity = TypeUserAssigned \<and> len identityIds = 0
                then Inl (Error errMustBeSpecified)
              else if Model_Type identity = TypeUserAssigned \<and> len identityIds > 1
                then Inl (Error errSingleIdentity)
              else if len identityIds > 0 \<and> Model_Type identity = TypeSystemAssigned
                then Inl (Error errOnlyUserAssigned)
              else Inr \<lparr>Type = Model_Type identity, PrincipalId = [], TenantId = [],
                        IdentityIds = identityIds\<rparr>))"

subsection \<open>The Flatten functions\<close>

text \<open>
  The \<^verbatim>\<open>range\<close> loop over \<^verbatim>\<open>input.IdentityIds\<close>. Go does not fix the order in which the
  keys of a map are visited, so the order of one call is the argument \<open>keys\<close>, and
  \<open>rangeOrder\<close> says that a list is a possible order for a map: every key once. The
  loop stops at the first key that does not parse.
\<close>

definition rangeOrder :: "(string, 'd) fmap \<Rightarrow> string list \<Rightarrow> bool" where
  "rangeOrder m keys = (distinct keys \<and> fset_of_list keys = fmdom m)"

definition parseErrorMessage :: "('i, 'e) collaborators \<Rightarrow> string \<Rightarrow> 'e \<Rightarrow> string" where
  "parseErrorMessage c raw err =
     ''parsing '' @ go_quote (quote_non_ascii c) raw @ '' as a User Assigned Identity ID: ''
       @ format_plus_v c err"

fun parseIdentityIds :: "('i, 'e) collaborators \<Rightarrow> string list \<Rightarrow> string list \<Rightarrow> error + string list" where
  "parseIdentityIds c [] identityIds = Inr identityIds"
| "parseIdentityIds c (raw # keys) identityIds =
     (case ParseUserAssignedIdentityIDInsensitively c raw of
        Inl err \<Rightarrow> Inl (Error (parseErrorMessage c raw err))
      | Inr id' \<Rightarrow> parseIdentityIds c keys (identityIds @ [ID c id']))"

text \<open>
  Both functions return the result of the call together with the value \<^verbatim>\<open>input\<close>
  points to afterwards (\<open>None\<close> for a nil pointer).
\<close>

definition FlattenSystemOrSingleUserAssignedMap ::
    "('i, 'e) collaborators \<Rightarrow> string list \<Rightarrow> 'd SystemOrSingleUserAssignedMap option
      \<Rightarrow> (error + iface list) \<times> 'd SystemOrSingleUserAssignedMap option" where
  "FlattenSystemOrSingleUserAssignedMap c keys input =
     (case input of
        None \<Rightarrow> (Inr [], None)
      | Some s \<Rightarrow>
          (let s' = s\<lparr>Type := normalizeType c (Type s)\<rparr>
           in if Type s' \<noteq> TypeSystemAssigned \<and> Type s' \<noteq> TypeUserAssigned
                then (Inr [], Some s')
              else (case parseIdentityIds c keys [] of
                      Inl e \<Rightarrow> (Inl e, Some s')
                    | Inr identityIds \<Rightarrow>
                        (Inr [IMap [(''type'', IString (Type s')),
                                    (''identity_ids'', IStrings identityIds),
                                    (''principal_id'', IString (PrincipalId s')),
                                    (''tenant_id'', IString (TenantId s'))]],
                         Some s'))))"

definition FlattenSystemOrSingleUserAssignedMapToModel ::
    "('i, 'e) collaborators \<Rightarrow> string list \<Rightarrow> 'd SystemOrSingleUserAssignedMap option
      \<Rightarrow> (error + ModelSystemAssignedUserAssigned list) \<times> 'd SystemOrSingleUserAssignedMap option" where
  "FlattenSystemOrSingleUserAssignedMapToModel c keys input =
     (case input of
        None \<Rightarrow> (Inr [], None)
      | Some s \<Rightarrow>
          (let s' = s\<lparr>Type := normalizeType c (Type s)\<rparr>
           in if Type s' \<noteq> TypeSystemAssigned \<and> Type s' \<noteq> TypeUserAssigned
                then (Inr [], Some s')
              else (case parseIdentityIds c keys [] of
                      Inl e \<Rightarrow> (Inl e, Some s')
                    | Inr identityIds \<Rightarrow>
                        (Inr [\<lparr>Model_Type = Type s', Model_PrincipalId = PrincipalId s',
                               Model_TenantId = TenantId s', Model_IdentityIds = identityIds\<rparr>],
                         Some s'))))"

section \<open>Notions used in the statements\<close>

text \<open>
  The kind a type string is mapped to, in the words of the spec: the two recognised
  literals map to themselves, every other string to \<open>None\<close>.
\<close>

definition kindOfTypeString :: "string \<Rightarrow> Type" where
  "kindOfTypeString typeRaw =
     (if typeRaw = TypeUserAssigned then TypeUserAssigned
      else if typeRaw = TypeSystemAssigned then TypeSystemAssigned
      else TypeNone)"

text \<open>
  The validation rules in the words of the spec, for a kind and the number of elements of
  the built set of identity IDs: three checks in this order, the first that fails gives
  the message, and \<open>None\<close> when all pass.
\<close>

definition validationError :: "Type \<Rightarrow> nat \<Rightarrow> string option" where
  "validationError kind n =
     (if kind = TypeUserAssigned \<and> n = 0 then Some errMustBeSpecified
      else if kind = TypeUserAssigned \<and> n > 1 then Some errSingleIdentity
      else if n > 0 \<and> kind = TypeSystemAssigned then Some errOnlyUserAssigned
      else None)"

text \<open>The message of the error a call returned, if it returned one.\<close>

definition returnedError :: "error + 'a \<Rightarrow> string option" where
  "returnedError r = (case r of Inl (Error m) \<Rightarrow> Some m | _ \<Rightarrow> None)"

text \<open>The invariant of the data model: one identity ID for UserAssigned, none otherwise.\<close>

definition dataModelInvariant :: "'d SystemOrSingleUserAssignedMap \<Rightarrow> bool" where
  "dataModelInvariant v =
     (if Type v = TypeUserAssigned then len (IdentityIds v) = 1 else len (IdentityIds v) = 0)"

text \<open>
  The inputs on which no type assertion of the untyped Expand fails: the first element is
  a map whose \<^verbatim>\<open>type\<close> is a string and whose \<^verbatim>\<open>identity_ids\<close> is a set of strings.
\<close>

fun isString :: "iface \<Rightarrow> bool" where
  "isString (IString _) = True"
| "isString _ = False"

definition wellShaped :: "iface \<Rightarrow> bool" where
  "wellShaped first =
     (case first of
        IMap raw \<Rightarrow>
          (case map_of raw ''type'' of
             Some (IString _) \<Rightarrow>
               (case map_of raw ''identity_ids'' of
                  Some (ISet vs) \<Rightarrow> list_all isString vs
                | _ \<Rightarrow> False)
           | _ \<Rightarrow> False)
      | _ \<Rightarrow> False)"

text \<open>
  The type \<^verbatim>\<open>MarshalJSON\<close> resolves, in the words of the spec: \<open>None\<close> when the input
  is absent or its kind is neither SystemAssigned nor UserAssigned, the kind otherwise.
\<close>

definition resolvedType :: "'d SystemOrSingleUserAssignedMap option \<Rightarrow> Type" where
  "resolvedType s =
     (case s of
        None \<Rightarrow> TypeNone
      | Some v \<Rightarrow>
          if Type v = TypeSystemAssigned \<or> Type v = TypeUserAssigned then Type v else TypeNone)"

text \<open>The map of identity IDs of an input; an absent input has none.\<close>

definition identityIdsOf :: "'d SystemOrSingleUserAssignedMap option \<Rightarrow> (string, 'd) fmap" where
  "identityIdsOf s = (case s of None \<Rightarrow> fmempty | Some v \<Rightarrow> IdentityIds v)"

text \<open>The value under a key of a JSON object, and the set of keys of a JSON object.\<close>

definition member :: "json \<Rightarrow> string \<Rightarrow> json option" where
  "member j k = (case j of JObject m \<Rightarrow> fmlookup m k | _ \<Rightarrow> None)"

definition topLevelKeys :: "json \<Rightarrow> string fset option" where
  "topLevelKeys j = (case j of JObject m \<Rightarrow> Some (fmdom m) | _ \<Rightarrow> None)"


text \<open>
  One instance of the collaborators, to run the Flatten functions on concrete inputs. It
  stands for no code of the repository: the normalization leaves every type as it is, a
  string parses exactly when it begins with a slash and is then its own canonical form,
  and the parse error is printed as it is.
\<close>

definition exampleCollaborators :: "(string, string) collaborators" where
  "exampleCollaborators =
     \<lparr>normalizeType = (\<lambda>t. t),
      ParseUserAssignedIdentityIDInsensitively =
        (\<lambda>raw. if take 1 raw = ''/'' then Inr raw else Inl ''not a resource ID''),
      ID = (\<lambda>i. i),
      format_plus_v = (\<lambda>e. e),
      quote_non_ascii = (\<lambda>s. s)\<rparr>"


section \<open>Auxiliary facts\<close>

lemmas Type_defs = TypeNone_def TypeSystemAssigned_def TypeUserAssigned_def

lemma len_fmempty: "len fmempty = 0"
  by (simp add: len_def fcard_fempty)

lemma fmdom_fold_fmupd: "fmdom (fold (\<lambda>v. fmupd v z) ss m) = fmdom m |\<union>| fset_of_list ss"
  by (induction ss arbitrary: m) auto

lemma fcard_fset_of_list: "fcard (fset_of_list ss) = card (set ss)"
  by (simp add: fcard.rep_eq fset_of_list.rep_eq)

lemma len_built: "len (fold (\<lambda>v. fmupd v z) ss fmempty) = card (set ss)"
  by (simp add: len_def fmdom_fold_fmupd fcard_fset_of_list)

lemma fmdom_built: "fmdom (fold (\<lambda>v. fmupd v z) ss fmempty) = fset_of_list ss"
  by (simp add: fmdom_fold_fmupd)

lemma insertIdentityIds_strings:
  "insertIdentityIds z (map IString ss) m = Inr (fold (\<lambda>v. fmupd v z) ss m)"
  by (induction ss arbitrary: m) simp_all

lemma insertIdentityIds_Inr:
  "insertIdentityIds z vs m = Inr m' \<Longrightarrow> \<exists>ss. vs = map IString ss"
proof (induction z vs m rule: insertIdentityIds.induct)
  case (1 z identityIds)
  then show ?case by simp
next
  case (2 z v vs identityIds)
  then obtain ss where "vs = map IString ss" by auto
  then have "IString v # vs = map IString (v # ss)" by simp
  then show ?case by (rule exI)
qed simp_all

lemma insertIdentityIds_no_Error: "insertIdentityIds z vs m \<noteq> Inl (Error msg)"
  by (induction z vs m rule: insertIdentityIds.induct) simp_all

lemma expandRead_shape:
  assumes "map_of raw ''type'' = Some (IString t)"
    and "map_of raw ''identity_ids'' = Some (ISet (map IString ss))"
  shows "expandRead z (IMap raw # rest)
           = Inr (kindOfTypeString t, fold (\<lambda>v. fmupd v z) ss fmempty)"
  using assms
  by (simp add: expandRead_def kindOfTypeString_def insertIdentityIds_strings Type_defs)

lemma expandRead_Inr:
  assumes "expandRead z input = Inr p"
  shows "input = [] \<or> (\<exists>raw rest t ss. input = IMap raw # rest
            \<and> map_of raw ''type'' = Some (IString t)
            \<and> map_of raw ''identity_ids'' = Some (ISet (map IString ss)))"
  using assms
  by (auto simp: expandRead_def Let_def split: list.splits iface.splits option.splits sum.splits
           dest: insertIdentityIds_Inr)

lemma expandRead_no_Error: "expandRead z input \<noteq> Inl (Error msg)"
  by (auto simp: expandRead_def Let_def insertIdentityIds_no_Error
           split: list.splits iface.splits option.splits sum.splits)

lemma expandRead_Nil: "expandRead z [] = Inr (TypeNone, fmempty)"
  by (simp add: expandRead_def)

lemma Expand_Panic_iff:
  "ExpandSystemOrSingleUserAssignedMap z input = Inl Panic \<longleftrightarrow> expandRead z input = Inl Panic"
  by (auto simp: ExpandSystemOrSingleUserAssignedMap_def split: sum.splits prod.splits)

lemma Expand_validation:
  assumes "expandRead z input = Inr (kind, ids)"
  shows "returnedError (ExpandSystemOrSingleUserAssignedMap z input)
           = validationError kind (len ids)"
  using assms
  by (simp add: ExpandSystemOrSingleUserAssignedMap_def returnedError_def validationError_def
        Type_defs)

lemma ExpandFromModel_validation:
  "returnedError (ExpandSystemOrSingleUserAssignedMapFromModel z (identity # rest))
     = validationError (Model_Type identity) (card (set (Model_IdentityIds identity)))"
  by (simp add: ExpandSystemOrSingleUserAssignedMapFromModel_def returnedError_def
        validationError_def Let_def len_built len_fmempty Type_defs)

section \<open>The Expand functions\<close>

subsection \<open>The invariant of the data model\<close>

text \<open>
  C1. The claim: every value a successful Expand returns has exactly one identity ID when
  its type is UserAssigned and none otherwise; in particular an input whose type string
  is not a recognised literal and whose \<^verbatim>\<open>identity_ids\<close> is not empty gives an error or
  a value without identity IDs. The code rejects identity IDs only for the type
  SystemAssigned, although its message says that they can only be specified for
  UserAssigned: with the type string \<^verbatim>\<open>None\<close> and one identity ID both functions
  return a value of type None that holds the identity ID, and the invariant fails on it.
\<close>

theorem Expand_None_keeps_identity_ids:
  "ExpandSystemOrSingleUserAssignedMap ()
       [IMap [(''type'', IString ''None''), (''identity_ids'', ISet [IString ''id-1''])]]
     = Inr \<lparr>Type = TypeNone, PrincipalId = [], TenantId = [],
            IdentityIds = fmupd ''id-1'' () fmempty\<rparr>
   \<and> ExpandSystemOrSingleUserAssignedMapFromModel ()
       [\<lparr>Model_Type = TypeNone, Model_PrincipalId = [], Model_TenantId = [],
         Model_IdentityIds = [''id-1'']\<rparr>]
     = Inr \<lparr>Type = TypeNone, PrincipalId = [], TenantId = [],
            IdentityIds = fmupd ''id-1'' () fmempty\<rparr>
   \<and> \<not> dataModelInvariant \<lparr>Type = TypeNone, PrincipalId = [], TenantId = [],
            IdentityIds = fmupd ''id-1'' () fmempty\<rparr>"
  by (simp add: ExpandSystemOrSingleUserAssignedMap_def expandRead_def
        ExpandSystemOrSingleUserAssignedMapFromModel_def dataModelInvariant_def
        Type_defs len_def fcard_finsert_if fcard_fempty Let_def)

subsection \<open>When Expand returns an error\<close>

text \<open>
  C3, amended. On every input on which it does not panic, the untyped Expand returns an
  error exactly in the three cases of the validation rules, taken for the kind the type
  string maps to and the number of distinct identity IDs of the set, and the typed Expand
  does so for the type and the distinct identity IDs of the first model (no error on an
  empty list); the message is the one of the first case that applies. The messages are
  those of the code, \<open>errMustBeSpecified\<close>, \<open>errSingleIdentity\<close> and
  \<open>errOnlyUserAssigned\<close>, which end in the word UserAssigned in double quotes, as
  \<^verbatim>\<open>%q\<close> prints it.
\<close>

theorem Expand_error_cases:
  "(ExpandSystemOrSingleUserAssignedMap z input \<noteq> Inl Panic \<longrightarrow>
      (input = [] \<and>
         returnedError (ExpandSystemOrSingleUserAssignedMap z input) = validationError TypeNone 0)
      \<or> (\<exists>raw rest t ss. input = IMap raw # rest
            \<and> map_of raw ''type'' = Some (IString t)
            \<and> map_of raw ''identity_ids'' = Some (ISet (map IString ss))
            \<and> returnedError (ExpandSystemOrSingleUserAssignedMap z input)
                = validationError (kindOfTypeString t) (card (set ss))))
   \<and> returnedError (ExpandSystemOrSingleUserAssignedMapFromModel z minput)
       = (case minput of
            [] \<Rightarrow> validationError TypeNone 0
          | identity # _ \<Rightarrow>
              validationError (Model_Type identity) (card (set (Model_IdentityIds identity))))"
proof (intro conjI impI)
  assume np: "ExpandSystemOrSingleUserAssignedMap z input \<noteq> Inl Panic"
  then have "expandRead z input \<noteq> Inl Panic" by (simp add: Expand_Panic_iff)
  then obtain p where p: "expandRead z input = Inr p"
    using expandRead_no_Error [of z input]
    by (cases "expandRead z input") (metis error.exhaust, simp)
  from expandRead_Inr [OF p] show "(input = [] \<and>
         returnedError (ExpandSystemOrSingleUserAssignedMap z input) = validationError TypeNone 0)
      \<or> (\<exists>raw rest t ss. input = IMap raw # rest
            \<and> map_of raw ''type'' = Some (IString t)
            \<and> map_of raw ''identity_ids'' = Some (ISet (map IString ss))
            \<and> returnedError (ExpandSystemOrSingleUserAssignedMap z input)
                = validationError (kindOfTypeString t) (card (set ss)))"
  proof
    assume "input = []"
    then show ?thesis
      using Expand_validation [OF expandRead_Nil, of z] by (simp add: len_fmempty)
  next
    assume "\<exists>raw rest t ss. input = IMap raw # rest
            \<and> map_of raw ''type'' = Some (IString t)
            \<and> map_of raw ''identity_ids'' = Some (ISet (map IString ss))"
    then obtain raw rest t ss where i: "input = IMap raw # rest"
      and t: "map_of raw ''type'' = Some (IString t)"
      and s: "map_of raw ''identity_ids'' = Some (ISet (map IString ss))" by blast
    have "returnedError (ExpandSystemOrSingleUserAssignedMap z input)
                = validationError (kindOfTypeString t) (card (set ss))"
      using Expand_validation [OF expandRead_shape [OF t s, of z rest]] i
      by (simp add: len_built)
    with i t s show ?thesis by blast
  qed
next
  show "returnedError (ExpandSystemOrSingleUserAssignedMapFromModel z minput)
       = (case minput of
            [] \<Rightarrow> validationError TypeNone 0
          | identity # _ \<Rightarrow>
              validationError (Model_Type identity) (card (set (Model_IdentityIds identity))))"
  proof (cases minput)
    case Nil
    then show ?thesis
      by (simp add: ExpandSystemOrSingleUserAssignedMapFromModel_def returnedError_def
            validationError_def Type_defs)
  next
    case (Cons identity rest)
    then show ?thesis by (simp add: ExpandFromModel_validation)
  qed
qed

text \<open>The theorem at a SystemAssigned input with one identity ID, and at a typed input with two.\<close>

theorem Expand_error_cases_witness:
  "ExpandSystemOrSingleUserAssignedMap ()
       [IMap [(''type'', IString ''SystemAssigned''), (''identity_ids'', ISet [IString ''id-1''])]]
     \<noteq> Inl Panic
   \<and> returnedError (ExpandSystemOrSingleUserAssignedMap ()
       [IMap [(''type'', IString ''SystemAssigned''), (''identity_ids'', ISet [IString ''id-1''])]])
     = Some errOnlyUserAssigned
   \<and> returnedError (ExpandSystemOrSingleUserAssignedMapFromModel ()
       [\<lparr>Model_Type = ''UserAssigned'', Model_PrincipalId = [], Model_TenantId = [],
         Model_IdentityIds = [''id-1'', ''id-2'']\<rparr>])
     = Some errSingleIdentity"
  using Expand_error_cases [of "()"
      "[IMap [(''type'', IString ''SystemAssigned''), (''identity_ids'', ISet [IString ''id-1''])]]"
      "[\<lparr>Model_Type = ''UserAssigned'', Model_PrincipalId = [], Model_TenantId = [],
         Model_IdentityIds = [''id-1'', ''id-2'']\<rparr>]"]
  by (simp add: ExpandSystemOrSingleUserAssignedMap_def expandRead_def validationError_def
        kindOfTypeString_def returnedError_def
        Type_defs len_def fcard_finsert_if fcard_fempty Let_def)

text \<open>
  The claim as stated gives the messages without the double quotes. With the type
  UserAssigned and no identity ID the code returns the first message with them.
\<close>

theorem Expand_message_counterexample:
  "ExpandSystemOrSingleUserAssignedMap ()
       [IMap [(''type'', IString ''UserAssigned''), (''identity_ids'', ISet [])]]
     = Inl (Error (''`identity_ids` must be specified when `type` is set to ''
                    @ [CHR 0x22] @ ''UserAssigned'' @ [CHR 0x22]))
   \<and> ExpandSystemOrSingleUserAssignedMap ()
       [IMap [(''type'', IString ''UserAssigned''), (''identity_ids'', ISet [])]]
     \<noteq> Inl (Error ''`identity_ids` must be specified when `type` is set to UserAssigned'')"
  by (simp add: ExpandSystemOrSingleUserAssignedMap_def expandRead_def Type_defs
        errMustBeSpecified_def quote_ascii_def appendEscapedRune_def len_fmempty)

subsection \<open>The number of identity IDs of a UserAssigned input\<close>

lemma validationError_UserAssigned:
  "n \<noteq> 1 \<Longrightarrow> validationError TypeUserAssigned n
      = Some (if n = 0 then errMustBeSpecified else errSingleIdentity)"
  by (auto simp: validationError_def)

lemma returnedError_Some: "returnedError r = Some m \<Longrightarrow> r = Inl (Error m)"
  by (auto simp: returnedError_def split: sum.splits error.splits)

text \<open>
  C4, amended. For every input whose type is UserAssigned and in which the number of
  distinct identity IDs supplied is zero or more than one, both Expand functions fail,
  with \<open>errMustBeSpecified\<close> for zero and \<open>errSingleIdentity\<close> for more than one
  (the messages of the code, with UserAssigned in double quotes). The identity IDs are
  counted as a set: entries that are equal as strings count once.
\<close>

theorem Expand_UserAssigned_wrong_count:
  assumes "card (set ss) \<noteq> 1"
  shows "(map_of raw ''type'' = Some (IString TypeUserAssigned)
            \<and> map_of raw ''identity_ids'' = Some (ISet (map IString ss))
          \<longrightarrow> ExpandSystemOrSingleUserAssignedMap z (IMap raw # rest)
                = Inl (Error (if set ss = {} then errMustBeSpecified else errSingleIdentity)))
       \<and> (Model_Type identity = TypeUserAssigned \<and> Model_IdentityIds identity = ss
          \<longrightarrow> ExpandSystemOrSingleUserAssignedMapFromModel z (identity # mrest)
                = Inl (Error (if set ss = {} then errMustBeSpecified else errSingleIdentity)))"
proof (intro conjI impI)
  assume a: "map_of raw ''type'' = Some (IString TypeUserAssigned)
            \<and> map_of raw ''identity_ids'' = Some (ISet (map IString ss))"
  have "returnedError (ExpandSystemOrSingleUserAssignedMap z (IMap raw # rest))
          = validationError TypeUserAssigned (card (set ss))"
    using Expand_validation [OF expandRead_shape [of raw TypeUserAssigned ss z rest]] a
    by (simp add: len_built kindOfTypeString_def)
  with assms show "ExpandSystemOrSingleUserAssignedMap z (IMap raw # rest)
                = Inl (Error (if set ss = {} then errMustBeSpecified else errSingleIdentity))"
    by (intro returnedError_Some) (simp add: validationError_UserAssigned)
next
  assume a: "Model_Type identity = TypeUserAssigned \<and> Model_IdentityIds identity = ss"
  have "returnedError (ExpandSystemOrSingleUserAssignedMapFromModel z (identity # mrest))
          = validationError TypeUserAssigned (card (set ss))"
    using ExpandFromModel_validation [of z identity mrest] a by simp
  with assms show "ExpandSystemOrSingleUserAssignedMapFromModel z (identity # mrest)
                = Inl (Error (if set ss = {} then errMustBeSpecified else errSingleIdentity))"
    by (intro returnedError_Some) (simp add: validationError_UserAssigned)
qed

text \<open>The theorem at two different identity IDs, for both functions.\<close>

theorem Expand_UserAssigned_wrong_count_witness:
  "card (set [''id-1'', ''id-2'']) \<noteq> 1
   \<and> ExpandSystemOrSingleUserAssignedMap ()
        [IMap [(''type'', IString ''UserAssigned''),
               (''identity_ids'', ISet [IString ''id-1'', IString ''id-2''])]]
       = Inl (Error errSingleIdentity)
   \<and> ExpandSystemOrSingleUserAssignedMapFromModel ()
        [\<lparr>Model_Type = ''UserAssigned'', Model_PrincipalId = [], Model_TenantId = [],
          Model_IdentityIds = [''id-1'', ''id-2'']\<rparr>]
       = Inl (Error errSingleIdentity)"
  using Expand_UserAssigned_wrong_count [of "[''id-1'', ''id-2'']"
      "[(''type'', IString ''UserAssigned''),
        (''identity_ids'', ISet [IString ''id-1'', IString ''id-2''])]" "()" "[]"
      "\<lparr>Model_Type = ''UserAssigned'', Model_PrincipalId = [], Model_TenantId = [],
          Model_IdentityIds = [''id-1'', ''id-2'']\<rparr>" "[]"]
  by (simp add: Type_defs)

text \<open>
  The claim as stated counts the identity IDs as supplied. A typed input of type
  UserAssigned with the same identity ID twice is accepted.
\<close>

theorem ExpandFromModel_duplicate_counterexample:
  "ExpandSystemOrSingleUserAssignedMapFromModel ()
      [\<lparr>Model_Type = ''UserAssigned'', Model_PrincipalId = [], Model_TenantId = [],
        Model_IdentityIds = [''id-1'', ''id-1'']\<rparr>]
     = Inr \<lparr>Type = ''UserAssigned'', PrincipalId = [], TenantId = [],
            IdentityIds = fmupd ''id-1'' () fmempty\<rparr>"
  by (simp add: ExpandSystemOrSingleUserAssignedMapFromModel_def Type_defs len_def
        fcard_finsert_if fcard_fempty Let_def)

subsection \<open>Inputs on which the untyped Expand panics\<close>

lemma insertIdentityIds_Panic_iff:
  "insertIdentityIds z vs m = Inl Panic \<longleftrightarrow> \<not> list_all isString vs"
  by (induction z vs m rule: insertIdentityIds.induct) simp_all

lemma insertIdentityIds_Inr_isString:
  "insertIdentityIds z vs m = Inr m' \<Longrightarrow> list_all isString vs"
  by (induction z vs m rule: insertIdentityIds.induct) simp_all

lemma insertIdentityIds_Inl: "insertIdentityIds z vs m = Inl e \<Longrightarrow> e = Panic"
  using insertIdentityIds_no_Error [of z vs m] by (cases e) auto

text \<open>
  C9. The untyped Expand is not total: it does not panic on the empty list, and on a
  non-empty list it panics exactly when the first element is not well shaped, that is,
  when it is not a string-keyed map, or its \<^verbatim>\<open>type\<close> is missing or not a string, or
  its \<^verbatim>\<open>identity_ids\<close> is missing, not a set, or a set with an element that is not a
  string. A panic is not one of the returned errors.
\<close>

theorem Expand_panics:
  "ExpandSystemOrSingleUserAssignedMap z [] \<noteq> Inl Panic
   \<and> (ExpandSystemOrSingleUserAssignedMap z (first # rest) = Inl Panic \<longleftrightarrow> \<not> wellShaped first)"
proof
  show "ExpandSystemOrSingleUserAssignedMap z [] \<noteq> Inl Panic"
    by (simp add: Expand_Panic_iff expandRead_Nil)
next
  have "expandRead z (first # rest) = Inl Panic \<longleftrightarrow> \<not> wellShaped first"
    by (auto simp: expandRead_def wellShaped_def Let_def insertIdentityIds_Panic_iff
        split: iface.splits option.splits sum.splits
        dest: insertIdentityIds_Inl insertIdentityIds_Inr_isString)
  then show "ExpandSystemOrSingleUserAssignedMap z (first # rest) = Inl Panic \<longleftrightarrow> \<not> wellShaped first"
    by (simp add: Expand_Panic_iff)
qed

text \<open>
  The theorem at six inputs: a first element that is not a map, a missing and a
  non-string \<^verbatim>\<open>type\<close>, a missing \<^verbatim>\<open>identity_ids\<close>, one that is a slice and not a
  set, and a set that holds an integer.
\<close>

theorem Expand_panics_witness:
  "ExpandSystemOrSingleUserAssignedMap () [IString ''UserAssigned''] = Inl Panic
   \<and> ExpandSystemOrSingleUserAssignedMap () [IMap [(''identity_ids'', ISet [])]] = Inl Panic
   \<and> ExpandSystemOrSingleUserAssignedMap ()
        [IMap [(''type'', IInt 1), (''identity_ids'', ISet [])]] = Inl Panic
   \<and> ExpandSystemOrSingleUserAssignedMap () [IMap [(''type'', IString ''UserAssigned'')]] = Inl Panic
   \<and> ExpandSystemOrSingleUserAssignedMap ()
        [IMap [(''type'', IString ''UserAssigned''), (''identity_ids'', IStrings [''id-1''])]]
       = Inl Panic
   \<and> ExpandSystemOrSingleUserAssignedMap ()
        [IMap [(''type'', IString ''UserAssigned''), (''identity_ids'', ISet [IInt 1])]]
       = Inl Panic"
  using Expand_panics [of "()" "IString ''UserAssigned''" "[]"]
    Expand_panics [of "()" "IMap [(''identity_ids'', ISet [])]" "[]"]
    Expand_panics [of "()" "IMap [(''type'', IInt 1), (''identity_ids'', ISet [])]" "[]"]
    Expand_panics [of "()" "IMap [(''type'', IString ''UserAssigned'')]" "[]"]
    Expand_panics [of "()"
      "IMap [(''type'', IString ''UserAssigned''), (''identity_ids'', IStrings [''id-1''])]" "[]"]
    Expand_panics [of "()"
      "IMap [(''type'', IString ''UserAssigned''), (''identity_ids'', ISet [IInt 1])]" "[]"]
  by (simp add: wellShaped_def)

section \<open>MarshalJSON\<close>

lemma fmdom_empty_iff: "fmdom m = {||} \<longleftrightarrow> m = fmempty"
proof
  assume e: "fmdom m = {||}"
  show "m = fmempty"
  proof (rule fmap_ext)
    fix x
    have "x |\<notin>| fmdom m" using e by simp
    then show "fmlookup m x = fmlookup fmempty x" by (simp add: fmdom_notD)
  qed
qed simp

lemma len_eq_0: "len m = 0 \<longleftrightarrow> m = fmempty"
  by (simp add: len_def fcard_0_eq fmdom_empty_iff)

lemma fmmap_fmupd: "fmmap f (fmupd k v m) = fmupd k (f v) (fmmap f m)"
  by (rule fmap_ext) simp

lemma MarshalJSON_eq:
  "MarshalJSON marshalDetails s =
     JObject (fmap_of_list
       [(''type'', JString (resolvedType s)),
        (''userAssignedIdentities'',
           if resolvedType s = TypeNone \<or> identityIdsOf s = fmempty then JNull
           else JObject (fmmap marshalDetails (identityIdsOf s)))])"
  by (cases s)
     (auto simp: MarshalJSON_def resolvedType_def identityIdsOf_def Let_def len_eq_0 len_fmempty
        Type_defs)

subsection \<open>The value of \<^verbatim>\<open>userAssignedIdentities\<close>\<close>

text \<open>
  C2, amended. For every value, a nil receiver included, \<^verbatim>\<open>MarshalJSON\<close> emits under
  \<^verbatim>\<open>type\<close> the resolved type, and under \<^verbatim>\<open>userAssignedIdentities\<close> it emits null
  exactly when the resolved type is None or the map of identity IDs is empty; otherwise it
  emits the object that maps each identity ID of the map to an empty object, and has no
  other key.
\<close>

theorem MarshalJSON_userAssignedIdentities:
  "member (MarshalJSON marshalUserAssignedIdentityDetails s) ''type''
       = Some (JString (resolvedType s))
   \<and> member (MarshalJSON marshalUserAssignedIdentityDetails s) ''userAssignedIdentities''
       = Some (if resolvedType s = TypeNone \<or> identityIdsOf s = fmempty then JNull
               else JObject (fmmap (\<lambda>d. JObject fmempty) (identityIdsOf s)))
   \<and> fmdom (fmmap (\<lambda>d. JObject fmempty) (identityIdsOf s)) = fmdom (identityIdsOf s)
   \<and> (\<forall>k. k |\<in>| fmdom (identityIdsOf s) \<longrightarrow>
          fmlookup (fmmap (\<lambda>d. JObject fmempty) (identityIdsOf s)) k = Some (JObject fmempty))"
proof -
  have enc: "(marshalUserAssignedIdentityDetails :: 'a \<Rightarrow> json) = (\<lambda>d. JObject fmempty)"
    by (rule ext) (simp add: marshalUserAssignedIdentityDetails_def)
  have "\<forall>k. k |\<in>| fmdom (identityIdsOf s) \<longrightarrow>
          fmlookup (fmmap (\<lambda>d. JObject fmempty) (identityIdsOf s)) k = Some (JObject fmempty)"
    by (auto simp: fmlookup_dom_iff)
  then show ?thesis
    by (simp add: MarshalJSON_eq member_def enc)
qed

text \<open>
  The theorem at a UserAssigned value with one identity ID, and at a SystemAssigned value
  with one (the resolved type is not None and the map is not empty).
\<close>

theorem MarshalJSON_userAssignedIdentities_witness:
  "member (MarshalJSON marshalUserAssignedIdentityDetails
      (Some \<lparr>Type = ''UserAssigned'', PrincipalId = ''p'', TenantId = ''t'',
             IdentityIds = fmupd ''id-1'' () fmempty\<rparr>)) ''type'' = Some (JString ''UserAssigned'')
   \<and> member (MarshalJSON marshalUserAssignedIdentityDetails
      (Some \<lparr>Type = ''UserAssigned'', PrincipalId = ''p'', TenantId = ''t'',
             IdentityIds = fmupd ''id-1'' () fmempty\<rparr>)) ''userAssignedIdentities''
       = Some (JObject (fmupd ''id-1'' (JObject fmempty) fmempty))
   \<and> ''id-1'' |\<in>| fmdom (fmupd ''id-1'' () fmempty)
   \<and> member (MarshalJSON marshalUserAssignedIdentityDetails
      (Some \<lparr>Type = ''SystemAssigned'', PrincipalId = ''p'', TenantId = ''t'',
             IdentityIds = fmupd ''id-1'' () fmempty\<rparr>)) ''userAssignedIdentities''
       = Some (JObject (fmupd ''id-1'' (JObject fmempty) fmempty))"
  using MarshalJSON_userAssignedIdentities [of
      "Some \<lparr>Type = ''UserAssigned'', PrincipalId = ''p'', TenantId = ''t'',
             IdentityIds = fmupd ''id-1'' () fmempty\<rparr>"]
    MarshalJSON_userAssignedIdentities [of
      "Some \<lparr>Type = ''SystemAssigned'', PrincipalId = ''p'', TenantId = ''t'',
             IdentityIds = fmupd ''id-1'' () fmempty\<rparr>"]
  by (simp add: resolvedType_def identityIdsOf_def Type_defs fmmap_fmupd)

text \<open>
  The claim as stated has an empty object, not null, for a resolved type other than None
  with no identity IDs. For SystemAssigned and an empty map the code emits null: the map
  is stored in \<^verbatim>\<open>out\<close> only when its length is positive.
\<close>

theorem MarshalJSON_empty_counterexample:
  "MarshalJSON marshalUserAssignedIdentityDetails
      (Some \<lparr>Type = ''SystemAssigned'', PrincipalId = [], TenantId = [],
             IdentityIds = (fmempty :: (string, unit) fmap)\<rparr>)
     = JObject (fmap_of_list
         [(''type'', JString ''SystemAssigned''), (''userAssignedIdentities'', JNull)])"
  by (simp add: MarshalJSON_def Type_defs len_fmempty)

subsection \<open>The keys of the object\<close>

text \<open>
  C8. For every value, a nil receiver included, \<^verbatim>\<open>MarshalJSON\<close> produces an object
  with exactly the two keys \<^verbatim>\<open>type\<close> and \<^verbatim>\<open>userAssignedIdentities\<close>, and the result
  does not depend on the fields \<^verbatim>\<open>PrincipalId\<close> and \<^verbatim>\<open>TenantId\<close>: they are never
  serialized.
\<close>

theorem MarshalJSON_keys:
  "topLevelKeys (MarshalJSON marshalDetails s) = Some {|''type'', ''userAssignedIdentities''|}
   \<and> MarshalJSON marshalDetails (Some (v\<lparr>PrincipalId := p, TenantId := t\<rparr>))
       = MarshalJSON marshalDetails (Some v)"
  by (simp add: MarshalJSON_eq topLevelKeys_def resolvedType_def identityIdsOf_def)

text \<open>The theorem at a value with both fields set, against the same value with both empty.\<close>

theorem MarshalJSON_keys_witness:
  "topLevelKeys (MarshalJSON (\<lambda>d. JObject fmempty)
      (Some \<lparr>Type = ''UserAssigned'', PrincipalId = ''p'', TenantId = ''t'',
             IdentityIds = fmupd ''id-1'' () fmempty\<rparr>))
     = Some {|''type'', ''userAssignedIdentities''|}
   \<and> MarshalJSON (\<lambda>d. JObject fmempty)
      (Some \<lparr>Type = ''UserAssigned'', PrincipalId = ''p'', TenantId = ''t'',
             IdentityIds = fmupd ''id-1'' () fmempty\<rparr>)
     = MarshalJSON (\<lambda>d. JObject fmempty)
      (Some \<lparr>Type = ''UserAssigned'', PrincipalId = [], TenantId = [],
             IdentityIds = fmupd ''id-1'' () fmempty\<rparr>)"
  using MarshalJSON_keys [where marshalDetails = "\<lambda>d. JObject fmempty"
      and s = "Some \<lparr>Type = ''UserAssigned'', PrincipalId = ''p'', TenantId = ''t'',
             IdentityIds = fmupd ''id-1'' () fmempty\<rparr>"
      and v = "\<lparr>Type = ''UserAssigned'', PrincipalId = [], TenantId = [],
             IdentityIds = fmupd ''id-1'' () fmempty\<rparr>" and p = "''p''" and t = "''t''"]
  by (simp add: MarshalJSON_eq topLevelKeys_def)

section \<open>The Flatten functions\<close>

subsection \<open>Empty results\<close>

text \<open>
  C7. Both Flatten functions return the empty list and no error when the input is nil,
  and when the normalized kind of the input is neither SystemAssigned nor UserAssigned.
  No identity ID is parsed in these cases: the result is the same whatever the parser is,
  and whatever the identity IDs are.
\<close>

theorem Flatten_empty_results:
  assumes "case input of
             None \<Rightarrow> True
           | Some s \<Rightarrow> normalizeType c (Type s) \<noteq> TypeSystemAssigned
                       \<and> normalizeType c (Type s) \<noteq> TypeUserAssigned"
  shows "fst (FlattenSystemOrSingleUserAssignedMap c keys input) = Inr []
       \<and> fst (FlattenSystemOrSingleUserAssignedMapToModel c keys input) = Inr []
       \<and> FlattenSystemOrSingleUserAssignedMap
            (c\<lparr>ParseUserAssignedIdentityIDInsensitively := parse'\<rparr>) keys input
           = FlattenSystemOrSingleUserAssignedMap c keys input
       \<and> FlattenSystemOrSingleUserAssignedMapToModel
            (c\<lparr>ParseUserAssignedIdentityIDInsensitively := parse'\<rparr>) keys input
           = FlattenSystemOrSingleUserAssignedMapToModel c keys input"
  using assms
  by (cases input)
     (simp_all add: FlattenSystemOrSingleUserAssignedMap_def
        FlattenSystemOrSingleUserAssignedMapToModel_def Let_def)

text \<open>
  The theorem at a value of type None whose only identity ID does not parse, and at the
  nil input.
\<close>

theorem Flatten_empty_results_witness:
  "fst (FlattenSystemOrSingleUserAssignedMap exampleCollaborators [''not an ID'']
          (Some \<lparr>Type = ''None'', PrincipalId = ''p'', TenantId = ''t'',
                 IdentityIds = fmupd ''not an ID'' () fmempty\<rparr>)) = Inr []
   \<and> fst (FlattenSystemOrSingleUserAssignedMapToModel exampleCollaborators [''not an ID'']
          (Some \<lparr>Type = ''None'', PrincipalId = ''p'', TenantId = ''t'',
                 IdentityIds = fmupd ''not an ID'' () fmempty\<rparr>)) = Inr []
   \<and> fst (FlattenSystemOrSingleUserAssignedMap exampleCollaborators []
          (None :: unit SystemOrSingleUserAssignedMap option)) = Inr []
   \<and> fst (FlattenSystemOrSingleUserAssignedMapToModel exampleCollaborators []
          (None :: unit SystemOrSingleUserAssignedMap option)) = Inr []"
  using Flatten_empty_results [where c = exampleCollaborators and keys = "[''not an ID'']"
      and input = "Some \<lparr>Type = ''None'', PrincipalId = ''p'', TenantId = ''t'',
                 IdentityIds = fmupd ''not an ID'' () fmempty\<rparr>"]
    Flatten_empty_results [where c = exampleCollaborators and keys = "[]"
      and input = "None :: unit SystemOrSingleUserAssignedMap option"]
  by (simp add: exampleCollaborators_def Type_defs)

subsection \<open>What the Flatten functions change\<close>

text \<open>
  C10. After a call of either Flatten function on a non-nil input, the input is the value
  it was with the field \<^verbatim>\<open>Type\<close> overwritten by the normalized kind: the fields
  \<^verbatim>\<open>PrincipalId\<close>, \<^verbatim>\<open>TenantId\<close> and \<^verbatim>\<open>IdentityIds\<close> are unchanged, on every
  path of the function.
\<close>

theorem Flatten_frame:
  "snd (FlattenSystemOrSingleUserAssignedMap c keys (Some s))
     = Some (s\<lparr>Type := normalizeType c (Type s)\<rparr>)
   \<and> snd (FlattenSystemOrSingleUserAssignedMapToModel c keys (Some s))
     = Some (s\<lparr>Type := normalizeType c (Type s)\<rparr>)"
  by (simp add: FlattenSystemOrSingleUserAssignedMap_def
        FlattenSystemOrSingleUserAssignedMapToModel_def Let_def split: sum.splits)

text \<open>The theorem with a normalization that changes the type of the input.\<close>

theorem Flatten_frame_witness:
  "snd (FlattenSystemOrSingleUserAssignedMap
          (exampleCollaborators\<lparr>normalizeType :=
             (\<lambda>t. if t = ''userassigned'' then ''UserAssigned'' else t)\<rparr>) [''/id-1'']
          (Some \<lparr>Type = ''userassigned'', PrincipalId = ''p'', TenantId = ''t'',
                 IdentityIds = fmupd ''/id-1'' () fmempty\<rparr>))
     = Some \<lparr>Type = ''UserAssigned'', PrincipalId = ''p'', TenantId = ''t'',
                 IdentityIds = fmupd ''/id-1'' () fmempty\<rparr>
   \<and> snd (FlattenSystemOrSingleUserAssignedMapToModel
          (exampleCollaborators\<lparr>normalizeType :=
             (\<lambda>t. if t = ''userassigned'' then ''UserAssigned'' else t)\<rparr>) [''/id-1'']
          (Some \<lparr>Type = ''userassigned'', PrincipalId = ''p'', TenantId = ''t'',
                 IdentityIds = fmupd ''/id-1'' () fmempty\<rparr>))
     = Some \<lparr>Type = ''UserAssigned'', PrincipalId = ''p'', TenantId = ''t'',
                 IdentityIds = fmupd ''/id-1'' () fmempty\<rparr>"
  using Flatten_frame [where c = "exampleCollaborators\<lparr>normalizeType :=
             (\<lambda>t. if t = ''userassigned'' then ''UserAssigned'' else t)\<rparr>"
      and keys = "[''/id-1'']"
      and s = "\<lparr>Type = ''userassigned'', PrincipalId = ''p'', TenantId = ''t'',
                 IdentityIds = fmupd ''/id-1'' () fmempty\<rparr>"]
  by (simp add: exampleCollaborators_def)

subsection \<open>Parsing the identity IDs\<close>

lemma parseIdentityIds_result:
  "parseIdentityIds c keys acc =
     (case find (\<lambda>raw. isl (ParseUserAssignedIdentityIDInsensitively c raw)) keys of
        Some raw \<Rightarrow>
          Inl (Error (parseErrorMessage c raw (projl (ParseUserAssignedIdentityIDInsensitively c raw))))
      | None \<Rightarrow>
          Inr (acc @ map (\<lambda>raw. ID c (projr (ParseUserAssignedIdentityIDInsensitively c raw))) keys))"
proof (induction keys arbitrary: acc)
  case Nil
  then show ?case by simp
next
  case (Cons raw keys)
  show ?case
  proof (cases "ParseUserAssignedIdentityIDInsensitively c raw")
    case (Inl err)
    then show ?thesis by simp
  next
    case (Inr parsed)
    then show ?thesis by (simp add: Cons.IH split: option.splits)
  qed
qed







lemma Flatten_handled:
  assumes "normalizeType c (Type s) = TypeSystemAssigned \<or> normalizeType c (Type s) = TypeUserAssigned"
  shows "fst (FlattenSystemOrSingleUserAssignedMap c keys (Some s)) =
           (case parseIdentityIds c keys [] of
              Inl e \<Rightarrow> Inl e
            | Inr identityIds \<Rightarrow>
                Inr [IMap [(''type'', IString (normalizeType c (Type s))),
                           (''identity_ids'', IStrings identityIds),
                           (''principal_id'', IString (PrincipalId s)),
                           (''tenant_id'', IString (TenantId s))]])"
    and "fst (FlattenSystemOrSingleUserAssignedMapToModel c keys (Some s)) =
           (case parseIdentityIds c keys [] of
              Inl e \<Rightarrow> Inl e
            | Inr identityIds \<Rightarrow>
                Inr [\<lparr>Model_Type = normalizeType c (Type s), Model_PrincipalId = PrincipalId s,
                       Model_TenantId = TenantId s, Model_IdentityIds = identityIds\<rparr>])"
  using assms
  by (auto simp: FlattenSystemOrSingleUserAssignedMap_def
        FlattenSystemOrSingleUserAssignedMapToModel_def Let_def split: sum.splits)







section \<open>Flatten after Expand\<close>

lemma Expand_Inr:
  assumes "expandRead z input = Inr (kind, ids)"
    and "ExpandSystemOrSingleUserAssignedMap z input = Inr v"
  shows "v = \<lparr>Type = kind, PrincipalId = [], TenantId = [], IdentityIds = ids\<rparr>"
  using assms
  by (auto simp: ExpandSystemOrSingleUserAssignedMap_def split: if_splits)

lemma ExpandFromModel_Inr:
  assumes "ExpandSystemOrSingleUserAssignedMapFromModel z (m # rest) = Inr v"
  shows "v = \<lparr>Type = Model_Type m, PrincipalId = [], TenantId = [],
              IdentityIds = fold (\<lambda>v. fmupd v z) (Model_IdentityIds m) fmempty\<rparr>"
  using assms
  by (auto simp: ExpandSystemOrSingleUserAssignedMapFromModel_def Let_def split: if_splits)

lemma parseIdentityIds_all_parse:
  assumes "\<forall>k \<in> set keys. \<not> isl (ParseUserAssignedIdentityIDInsensitively c k)"
  shows "parseIdentityIds c keys []
           = Inr (map (\<lambda>k. ID c (projr (ParseUserAssignedIdentityIDInsensitively c k))) keys)"
proof -
  have "find (\<lambda>k. isl (ParseUserAssignedIdentityIDInsensitively c k)) keys = None"
    using assms by (auto simp: find_None_iff)
  then show ?thesis by (simp add: parseIdentityIds_result)
qed

lemma rangeOrder_built:
  assumes "rangeOrder (fold (\<lambda>v. fmupd v z) ss fmempty) keys"
  shows "set keys = set ss"
proof -
  have "fset_of_list keys = fset_of_list ss"
    using assms by (simp add: rangeOrder_def fmdom_built)
  then have "fset (fset_of_list keys) = fset (fset_of_list ss)" by simp
  then show ?thesis by (simp only: fset_of_list.rep_eq)
qed

text \<open>
  C5, amended. Let the normalization leave SystemAssigned and UserAssigned as they are.
  For every input that Expand accepts, whose type is SystemAssigned or UserAssigned and
  whose identity IDs are well formed (each parses), Flatten of the expanded value
  succeeds, in every order of visiting the map, with one element that has the type of the
  input and, as identity IDs, those of the input, each rendered by the \<^verbatim>\<open>ID()\<close>
  method of what it parsed to, in some order: the same set of identity IDs as the input
  has whenever each of them renders as itself. The principal and tenant IDs of the
  element are empty. This holds for the untyped pair and for the typed pair.
\<close>

theorem Flatten_Expand_roundtrip:
  assumes nt: "normalizeType c TypeSystemAssigned = TypeSystemAssigned"
              "normalizeType c TypeUserAssigned = TypeUserAssigned"
    and t: "t = TypeSystemAssigned \<or> t = TypeUserAssigned"
    and parses: "\<forall>k \<in> set ss. \<not> isl (ParseUserAssignedIdentityIDInsensitively c k)"
  shows "(map_of raw ''type'' = Some (IString t)
            \<and> map_of raw ''identity_ids'' = Some (ISet (map IString ss))
            \<and> ExpandSystemOrSingleUserAssignedMap z (IMap raw # rest) = Inr v
            \<and> rangeOrder (IdentityIds v) keys
          \<longrightarrow> (\<exists>out. fst (FlattenSystemOrSingleUserAssignedMap c keys (Some v))
                        = Inr [IMap [(''type'', IString t),
                                     (''identity_ids'', IStrings out),
                                     (''principal_id'', IString []),
                                     (''tenant_id'', IString [])]]
                    \<and> set out = (\<lambda>k. ID c (projr (ParseUserAssignedIdentityIDInsensitively c k))) ` set ss
                    \<and> ((\<forall>k \<in> set ss. ID c (projr (ParseUserAssignedIdentityIDInsensitively c k)) = k)
                          \<longrightarrow> set out = set ss)))
       \<and> (Model_Type m = t \<and> Model_IdentityIds m = ss
            \<and> ExpandSystemOrSingleUserAssignedMapFromModel z (m # mrest) = Inr v'
            \<and> rangeOrder (IdentityIds v') keys'
          \<longrightarrow> (\<exists>out. fst (FlattenSystemOrSingleUserAssignedMapToModel c keys' (Some v'))
                        = Inr [\<lparr>Model_Type = t, Model_PrincipalId = [], Model_TenantId = [],
                                 Model_IdentityIds = out\<rparr>]
                    \<and> set out = (\<lambda>k. ID c (projr (ParseUserAssignedIdentityIDInsensitively c k))) ` set ss
                    \<and> ((\<forall>k \<in> set ss. ID c (projr (ParseUserAssignedIdentityIDInsensitively c k)) = k)
                          \<longrightarrow> set out = set ss)))"
proof (intro conjI impI)
  let ?render = "\<lambda>k. ID c (projr (ParseUserAssignedIdentityIDInsensitively c k))"
  assume a: "map_of raw ''type'' = Some (IString t)
            \<and> map_of raw ''identity_ids'' = Some (ISet (map IString ss))
            \<and> ExpandSystemOrSingleUserAssignedMap z (IMap raw # rest) = Inr v
            \<and> rangeOrder (IdentityIds v) keys"
  have k: "kindOfTypeString t = t" using t by (auto simp: kindOfTypeString_def)
  have v: "v = \<lparr>Type = t, PrincipalId = [], TenantId = [],
                 IdentityIds = fold (\<lambda>v. fmupd v z) ss fmempty\<rparr>"
    using Expand_Inr [OF expandRead_shape [of raw t ss z rest]] a k by simp
  then have s: "set keys = set ss" using a rangeOrder_built by fastforce
  have kind: "normalizeType c (Type v) = TypeSystemAssigned
                \<or> normalizeType c (Type v) = TypeUserAssigned"
    using v t nt by auto
  have n: "normalizeType c (Type v) = t" using v t nt by auto
  have f: "PrincipalId v = []" "TenantId v = []" using v by simp_all
  have loop: "parseIdentityIds c keys [] = Inr (map ?render keys)"
    using parses s by (intro parseIdentityIds_all_parse) simp
  have r: "fst (FlattenSystemOrSingleUserAssignedMap c keys (Some v))
                        = Inr [IMap [(''type'', IString t),
                                     (''identity_ids'', IStrings (map ?render keys)),
                                     (''principal_id'', IString []),
                                     (''tenant_id'', IString [])]]"
    by (simp add: Flatten_handled(1) [OF kind] loop n f)
  have i: "set (map ?render keys) = ?render ` set ss" using s by simp
  then have "(\<forall>k \<in> set ss. ?render k = k) \<longrightarrow> set (map ?render keys) = set ss"
    by force
  with r i show "\<exists>out. fst (FlattenSystemOrSingleUserAssignedMap c keys (Some v))
                        = Inr [IMap [(''type'', IString t),
                                     (''identity_ids'', IStrings out),
                                     (''principal_id'', IString []),
                                     (''tenant_id'', IString [])]]
                    \<and> set out = ?render ` set ss
                    \<and> ((\<forall>k \<in> set ss. ?render k = k) \<longrightarrow> set out = set ss)"
    by blast
next
  let ?render = "\<lambda>k. ID c (projr (ParseUserAssignedIdentityIDInsensitively c k))"
  assume a: "Model_Type m = t \<and> Model_IdentityIds m = ss
            \<and> ExpandSystemOrSingleUserAssignedMapFromModel z (m # mrest) = Inr v'
            \<and> rangeOrder (IdentityIds v') keys'"
  have v: "v' = \<lparr>Type = t, PrincipalId = [], TenantId = [],
                 IdentityIds = fold (\<lambda>v. fmupd v z) ss fmempty\<rparr>"
    using ExpandFromModel_Inr [of z m mrest v'] a by simp
  then have s: "set keys' = set ss" using a rangeOrder_built by fastforce
  have kind: "normalizeType c (Type v') = TypeSystemAssigned
                \<or> normalizeType c (Type v') = TypeUserAssigned"
    using v t nt by auto
  have n: "normalizeType c (Type v') = t" using v t nt by auto
  have f: "PrincipalId v' = []" "TenantId v' = []" using v by simp_all
  have loop: "parseIdentityIds c keys' [] = Inr (map ?render keys')"
    using parses s by (intro parseIdentityIds_all_parse) simp
  have r: "fst (FlattenSystemOrSingleUserAssignedMapToModel c keys' (Some v'))
                        = Inr [\<lparr>Model_Type = t, Model_PrincipalId = [], Model_TenantId = [],
                                 Model_IdentityIds = map ?render keys'\<rparr>]"
    by (simp add: Flatten_handled(2) [OF kind] loop n f)
  have i: "set (map ?render keys') = ?render ` set ss" using s by simp
  then have "(\<forall>k \<in> set ss. ?render k = k) \<longrightarrow> set (map ?render keys') = set ss"
    by force
  with r i show "\<exists>out. fst (FlattenSystemOrSingleUserAssignedMapToModel c keys' (Some v'))
                        = Inr [\<lparr>Model_Type = t, Model_PrincipalId = [], Model_TenantId = [],
                                 Model_IdentityIds = out\<rparr>]
                    \<and> set out = ?render ` set ss
                    \<and> ((\<forall>k \<in> set ss. ?render k = k) \<longrightarrow> set out = set ss)"
    by blast
qed

text \<open>The theorem at a UserAssigned input with one identity ID, for both pairs.\<close>

theorem Flatten_Expand_roundtrip_witness:
  "normalizeType exampleCollaborators TypeSystemAssigned = TypeSystemAssigned
   \<and> normalizeType exampleCollaborators TypeUserAssigned = TypeUserAssigned
   \<and> ParseUserAssignedIdentityIDInsensitively exampleCollaborators ''/id-1'' = Inr ''/id-1''
   \<and> ID exampleCollaborators ''/id-1'' = ''/id-1''
   \<and> ExpandSystemOrSingleUserAssignedMap ()
        [IMap [(''type'', IString ''UserAssigned''), (''identity_ids'', ISet [IString ''/id-1''])]]
       = Inr \<lparr>Type = ''UserAssigned'', PrincipalId = [], TenantId = [],
              IdentityIds = fmupd ''/id-1'' () fmempty\<rparr>
   \<and> ExpandSystemOrSingleUserAssignedMapFromModel ()
        [\<lparr>Model_Type = ''UserAssigned'', Model_PrincipalId = ''p'', Model_TenantId = ''t'',
          Model_IdentityIds = [''/id-1'']\<rparr>]
       = Inr \<lparr>Type = ''UserAssigned'', PrincipalId = [], TenantId = [],
              IdentityIds = fmupd ''/id-1'' () fmempty\<rparr>
   \<and> rangeOrder (fmupd ''/id-1'' () fmempty) [''/id-1'']
   \<and> fst (FlattenSystemOrSingleUserAssignedMap exampleCollaborators [''/id-1'']
          (Some \<lparr>Type = ''UserAssigned'', PrincipalId = [], TenantId = [],
                 IdentityIds = fmupd ''/id-1'' () fmempty\<rparr>))
       = Inr [IMap [(''type'', IString ''UserAssigned''),
                    (''identity_ids'', IStrings [''/id-1'']),
                    (''principal_id'', IString []),
                    (''tenant_id'', IString [])]]
   \<and> fst (FlattenSystemOrSingleUserAssignedMapToModel exampleCollaborators [''/id-1'']
          (Some \<lparr>Type = ''UserAssigned'', PrincipalId = [], TenantId = [],
                 IdentityIds = fmupd ''/id-1'' () fmempty\<rparr>))
       = Inr [\<lparr>Model_Type = ''UserAssigned'', Model_PrincipalId = [], Model_TenantId = [],
               Model_IdentityIds = [''/id-1'']\<rparr>]"
  using Flatten_Expand_roundtrip [where c = exampleCollaborators and t = "''UserAssigned''"
      and ss = "[''/id-1'']" and z = "()" and rest = "[]" and mrest = "[]"
      and raw = "[(''type'', IString ''UserAssigned''), (''identity_ids'', ISet [IString ''/id-1''])]"
      and m = "\<lparr>Model_Type = ''UserAssigned'', Model_PrincipalId = ''p'', Model_TenantId = ''t'',
          Model_IdentityIds = [''/id-1'']\<rparr>"
      and v = "\<lparr>Type = ''UserAssigned'', PrincipalId = [], TenantId = [],
              IdentityIds = fmupd ''/id-1'' () fmempty\<rparr>"
      and v' = "\<lparr>Type = ''UserAssigned'', PrincipalId = [], TenantId = [],
              IdentityIds = fmupd ''/id-1'' () fmempty\<rparr>"
      and keys = "[''/id-1'']" and keys' = "[''/id-1'']"]
  by (simp add: exampleCollaborators_def rangeOrder_def Type_defs
        ExpandSystemOrSingleUserAssignedMap_def expandRead_def
        ExpandSystemOrSingleUserAssignedMapFromModel_def
        FlattenSystemOrSingleUserAssignedMap_def FlattenSystemOrSingleUserAssignedMapToModel_def
        len_def fcard_finsert_if fcard_fempty Let_def)

text \<open>
  The claim as stated is for every input that passes the validation. An input of type
  None without identity IDs passes it, and Flatten of the expanded value is the empty
  list: no element carries the type of the input.
\<close>

theorem Flatten_Expand_None_counterexample:
  "ExpandSystemOrSingleUserAssignedMap ()
        [IMap [(''type'', IString ''None''), (''identity_ids'', ISet [])]]
       = Inr \<lparr>Type = ''None'', PrincipalId = [], TenantId = [], IdentityIds = fmempty\<rparr>
   \<and> fst (FlattenSystemOrSingleUserAssignedMap exampleCollaborators []
          (Some \<lparr>Type = ''None'', PrincipalId = [], TenantId = [],
                 IdentityIds = (fmempty :: (string, unit) fmap)\<rparr>)) = Inr []
   \<and> ExpandSystemOrSingleUserAssignedMapFromModel ()
        [\<lparr>Model_Type = ''None'', Model_PrincipalId = [], Model_TenantId = [],
          Model_IdentityIds = []\<rparr>]
       = Inr \<lparr>Type = ''None'', PrincipalId = [], TenantId = [], IdentityIds = fmempty\<rparr>
   \<and> fst (FlattenSystemOrSingleUserAssignedMapToModel exampleCollaborators []
          (Some \<lparr>Type = ''None'', PrincipalId = [], TenantId = [],
                 IdentityIds = (fmempty :: (string, unit) fmap)\<rparr>)) = Inr []"
  by (simp add: exampleCollaborators_def Type_defs
        ExpandSystemOrSingleUserAssignedMap_def expandRead_def
        ExpandSystemOrSingleUserAssignedMapFromModel_def
        FlattenSystemOrSingleUserAssignedMap_def FlattenSystemOrSingleUserAssignedMapToModel_def
        len_fmempty Let_def)

end
